theory Spec2Isabelle
  imports Main "HOL-Library.Option_ord"
begin

section \<open>JavaScript values of the conversations route\<close>

text \<open>
  The route handler \<open>GET /api/conversations\<close> works on JSON rows that the database client
  returns. A JavaScript value is \<open>undefined\<close>, \<open>null\<close>, a string, a number or an object. A
  timestamp column is held as a number (microseconds since the epoch), so that the
  database's chronological order is the order of the numbers. Strings are lists of code
  units below 256.
\<close>

datatype val = Undefined | Null | Text string | Num int | Obj "(string \<times> val) list"

type_synonym row = "(string \<times> val) list"

text \<open>Property access \<open>r.k\<close>: a missing property reads as \<open>undefined\<close>.\<close>

definition get :: "row \<Rightarrow> string \<Rightarrow> val" where
  "get r k = (case map_of r k of None \<Rightarrow> Undefined | Some v \<Rightarrow> v)"

text \<open>
  A number as \<open>parseInt\<close> returns it: \<open>NaN\<close> or an integer. \<open>JsInt n\<close> stands for the
  double nearest to \<open>n\<close>, which is \<open>n\<close> itself up to \<open>2^53\<close>.
\<close>

datatype js_number = NaN | JsInt int

definition max_safe :: int where
  "max_safe = 2 ^ 53 - 1"

text \<open>
  \<open>parseInt(s, 10)\<close>: leading white space is dropped, one sign is read, then the longest
  run of decimal digits; no digit gives \<open>NaN\<close>.
\<close>

definition is_white :: "char \<Rightarrow> bool" where
  "is_white c = (c \<in> set [CHR 0x09, CHR 0x0A, CHR 0x0B, CHR 0x0C, CHR 0x0D, CHR 0x20, CHR 0xA0])"

definition is_digit :: "char \<Rightarrow> bool" where
  "is_digit c = (c \<in> set ''0123456789'')"

definition digit_val :: "char \<Rightarrow> nat" where
  "digit_val c = length (takeWhile (\<lambda>d. d \<noteq> c) ''0123456789'')"

definition digits_val :: "string \<Rightarrow> nat" where
  "digits_val ds = foldl (\<lambda>a c. 10 * a + digit_val c) 0 ds"

definition parseInt :: "string \<Rightarrow> js_number" where
  "parseInt s =
     (let t = dropWhile is_white s;
          neg = (case t of [] \<Rightarrow> False | c # _ \<Rightarrow> c = CHR ''-'');
          u = (case t of [] \<Rightarrow> [] | c # r \<Rightarrow> if c = CHR ''-'' \<or> c = CHR ''+'' then r else t);
          ds = takeWhile is_digit u
      in if ds = [] then NaN
         else JsInt ((if neg then - 1 else 1) * int (digits_val ds)))"

text \<open>\<open>n <= x\<close> for a list length \<open>n\<close> and a number \<open>x\<close>: every comparison with \<open>NaN\<close> is false.\<close>

fun at_most :: "nat \<Rightarrow> js_number \<Rightarrow> bool" where
  "at_most n NaN = False"
| "at_most n (JsInt k) = (int n \<le> k)"

section \<open>The database client\<close>

text \<open>
  The handler builds each request with the client's query builder:
  \<open>from(table).select(columns).eq(...).is(...).in(...).order(...).limit(...)\<close>. A query
  is the record of what the chain has set. The client library and the database server
  are not part of the repository; their behaviour is the one documented for them, with
  the open points taken as fields of \<open>backend\<close>.
\<close>

datatype column = Star | Col string | Embed string string "string list"

datatype filter = Eq string val | Neq string val | Is_null string | In string "val list"

record query =
  tbl :: string
  sel :: "column list"
  filters :: "filter list"
  order_desc :: "string option"
  lim :: "js_number option"
  head_count :: bool

text \<open>What a request to the server may come to when its limit is not a non-negative exact integer.\<close>

datatype limit_outcome = Rejected | Unlimited | First nat

text \<open>
  A backend: the tables, the requests that fail (the server is unreachable, refuses the
  request or cannot read it), the server's cap on the rows of one answer if it has one,
  and what it does with an odd limit.
\<close>

record backend =
  tables :: "string \<Rightarrow> row list"
  fails :: "query \<Rightarrow> bool"
  max_rows :: "nat option"
  odd_limit :: "js_number \<Rightarrow> limit_outcome"

text \<open>The client's answer \<open>{ data, error, count }\<close>.\<close>

record answer =
  data :: "row list option"
  error :: bool
  count :: "nat option"

text \<open>
  SQL comparison is three-valued: \<open>None\<close> is \<open>unknown\<close>, and a row is selected only when
  every filter is true. Equality with a null on either side is unknown, so \<open>eq\<close> against
  \<open>null\<close> selects no row; \<open>is(col, null)\<close> is the test \<open>IS NULL\<close>. (A server that
  cannot convert the literal of an \<open>eq\<close> to the column's type rejects the request: that is
  a backend whose \<open>fails\<close> holds of the query.)
\<close>

fun holds :: "row \<Rightarrow> filter \<Rightarrow> bool option" where
  "holds r (Eq c v) = (if get r c = Null \<or> v = Null then None else Some (get r c = v))"
| "holds r (Neq c v) = (if get r c = Null \<or> v = Null then None else Some (get r c \<noteq> v))"
| "holds r (Is_null c) = Some (get r c = Null)"
| "holds r (In c vs) =
     (if get r c = Null then None
      else if get r c \<in> set vs then Some True
      else if Null \<in> set vs then None else Some False)"

definition selected :: "filter list \<Rightarrow> row \<Rightarrow> bool" where
  "selected fs r = list_all (\<lambda>f. holds r f = Some True) fs"

text \<open>
  \<open>order(col, { ascending: false })\<close>: descending, and nulls first as the server does
  for a descending order. The key is smaller for the row that comes earlier.
\<close>

definition desc_key :: "val \<Rightarrow> int option" where
  "desc_key v = (case v of Num n \<Rightarrow> Some (- n) | _ \<Rightarrow> None)"

definition ordered :: "string option \<Rightarrow> row list \<Rightarrow> row list" where
  "ordered ord rs = (case ord of None \<Rightarrow> rs | Some c \<Rightarrow> sort_key (\<lambda>r. desc_key (get r c)) rs)"

text \<open>
  \<open>limit(n)\<close> with a non-negative exact integer keeps the first \<open>n\<close> rows. What the server
  does with any other number is the backend's \<open>odd_limit\<close>.
\<close>

definition limit_outcome_of :: "backend \<Rightarrow> js_number option \<Rightarrow> limit_outcome" where
  "limit_outcome_of b l =
     (case l of None \<Rightarrow> Unlimited
      | Some (JsInt n) \<Rightarrow> if 0 \<le> n \<and> n \<le> max_safe then First (nat n) else odd_limit b (JsInt n)
      | Some NaN \<Rightarrow> odd_limit b NaN)"

text \<open>
  The selected columns of a row. \<open>users:user_id (username, avatar_url)\<close> embeds the row
  of \<open>users\<close> that the foreign key names, or \<open>null\<close> when there is none.
\<close>

definition project_col :: "backend \<Rightarrow> row \<Rightarrow> column \<Rightarrow> row" where
  "project_col b r c =
     (case c of
        Star \<Rightarrow> r
      | Col k \<Rightarrow> [(k, get r k)]
      | Embed alias fk cols \<Rightarrow>
          [(alias,
            (case find (\<lambda>u. get u ''id'' = get r fk \<and> get r fk \<noteq> Null) (tables b ''users'') of
               None \<Rightarrow> Null
             | Some u \<Rightarrow> Obj (map (\<lambda>k. (k, get u k)) cols)))])"

definition project :: "backend \<Rightarrow> column list \<Rightarrow> row \<Rightarrow> row" where
  "project b cs r = concat (map (project_col b r) cs)"

definition capped :: "backend \<Rightarrow> row list \<Rightarrow> row list" where
  "capped b rs = (case max_rows b of None \<Rightarrow> rs | Some m \<Rightarrow> take m rs)"

definition failed :: answer where
  "failed = \<lparr>data = None, error = True, count = None\<rparr>"

definition run :: "backend \<Rightarrow> query \<Rightarrow> answer" where
  "run b q =
     (if fails b q then failed
      else
        let rs = ordered (order_desc q) (filter (selected (filters q)) (tables b (tbl q)))
        in if head_count q then \<lparr>data = None, error = False, count = Some (length rs)\<rparr>
           else (case limit_outcome_of b (lim q) of
                   Rejected \<Rightarrow> failed
                 | Unlimited \<Rightarrow>
                     \<lparr>data = Some (map (project b (sel q)) (capped b rs)), error = False,
                      count = None\<rparr>
                 | First n \<Rightarrow>
                     \<lparr>data = Some (map (project b (sel q)) (take n (capped b rs))), error = False,
                      count = None\<rparr>))"

section \<open>The handler\<close>

text \<open>
  A request is what the handler reads of it: the \<open>limit\<close> search parameter
  (\<open>searchParams.get("limit")\<close>, \<open>None\<close> when absent) and what \<open>getUserId(request)\<close>
  comes to. \<open>getUserId\<close> is imported from \<open>@/lib/api-utils\<close>, which is not among the
  sources: its outcome is taken as given, a thrown exception included.
\<close>

datatype 'a outcome = Thrown | Returned 'a

record request =
  limit_param :: "string option"
  user :: "string option outcome"

record participant =
  part_id :: val
  part_user_id :: val
  part_username :: val
  part_avatar_url :: val

record preview =
  conv_id :: val
  created_at :: val
  updated_at :: val
  last_message :: "row option"
  participants :: "participant list"
  unread_count :: nat
  other_user :: "(val \<times> val) option"

text \<open>\<open>errorResponse(message, status, code)\<close> and \<open>successResponse(data)\<close>.\<close>

datatype response = Error_response string nat string | Success_response "preview list"

text \<open>\<open>const limit = limitParams ? parseInt(limitParams, 10) : 50\<close>: the empty string is falsy.\<close>

definition limit_of :: "request \<Rightarrow> js_number" where
  "limit_of req =
     (case limit_param req of
        None \<Rightarrow> JsInt 50
      | Some s \<Rightarrow> if s = [] then JsInt 50 else parseInt s)"

definition participations_query :: "string \<Rightarrow> query" where
  "participations_query userId =
     \<lparr>tbl = ''conversation_participants'', sel = [Col ''conversation_id''],
      filters = [Eq ''user_id'' (Text userId)], order_desc = None, lim = None,
      head_count = False\<rparr>"

definition conversations_query :: "val list \<Rightarrow> js_number \<Rightarrow> query" where
  "conversations_query conversationIds limit =
     \<lparr>tbl = ''conversations'', sel = [Col ''id'', Col ''created_at'', Col ''updated_at''],
      filters = [In ''id'' conversationIds], order_desc = Some ''updated_at'',
      lim = Some limit, head_count = False\<rparr>"

definition last_message_query :: "val \<Rightarrow> query" where
  "last_message_query cid =
     \<lparr>tbl = ''messages'', sel = [Col ''content'', Col ''sender_id'', Col ''created_at''],
      filters = [Eq ''conversation_id'' cid, Is_null ''deleted_at''],
      order_desc = Some ''created_at'', lim = Some (JsInt 1), head_count = False\<rparr>"

definition unread_query :: "val \<Rightarrow> string \<Rightarrow> query" where
  "unread_query cid userId =
     \<lparr>tbl = ''messages'', sel = [Star],
      filters = [Eq ''conversation_id'' cid, Eq ''read_at'' Null, Neq ''sender_id'' (Text userId)],
      order_desc = None, lim = None, head_count = True\<rparr>"

definition participants_query :: "val \<Rightarrow> query" where
  "participants_query cid =
     \<lparr>tbl = ''conversation_participants'',
      sel = [Col ''id'', Col ''user_id'', Embed ''users'' ''user_id'' [''username'', ''avatar_url'']],
      filters = [Eq ''conversation_id'' cid], order_desc = None, lim = None,
      head_count = False\<rparr>"

text \<open>\<open>p.users?.username\<close>: \<open>undefined\<close> when \<open>p.users\<close> is \<open>null\<close> or \<open>undefined\<close>.\<close>

definition optional_member :: "val \<Rightarrow> string \<Rightarrow> val" where
  "optional_member v k = (case v of Obj r \<Rightarrow> get r k | _ \<Rightarrow> Undefined)"

definition format_participant :: "row \<Rightarrow> participant" where
  "format_participant p =
     \<lparr>part_id = get p ''id'', part_user_id = get p ''user_id'',
      part_username = optional_member (get p ''users'') ''username'',
      part_avatar_url = optional_member (get p ''users'') ''avatar_url''\<rparr>"

text \<open>\<open>v || d\<close> with a string default: the falsy values (\<open>undefined\<close>, \<open>null\<close>, the empty
  string, zero) give the default, every other value is itself.\<close>

definition falsy :: "val \<Rightarrow> bool" where
  "falsy v = (v = Undefined \<or> v = Null \<or> v = Text [] \<or> v = Num 0)"

definition or_default :: "val \<Rightarrow> string \<Rightarrow> val" where
  "or_default v d = (if falsy v then Text d else v)"

text \<open>Step 4 of the handler for one conversation: the three queries and the preview.\<close>

definition enrich_queries :: "string \<Rightarrow> row \<Rightarrow> query list" where
  "enrich_queries userId conv =
     [last_message_query (get conv ''id''), unread_query (get conv ''id'') userId,
      participants_query (get conv ''id'')]"

definition enrich :: "backend \<Rightarrow> string \<Rightarrow> row \<Rightarrow> preview" where
  "enrich b userId conv =
     (let lastMessages = data (run b (last_message_query (get conv ''id'')));
          unreadCount = count (run b (unread_query (get conv ''id'') userId));
          parts = data (run b (participants_query (get conv ''id'')));
          formattedParticipants =
            map format_participant (case parts of None \<Rightarrow> [] | Some ps \<Rightarrow> ps);
          otherParticipant = find (\<lambda>p. part_user_id p \<noteq> Text userId) formattedParticipants
      in \<lparr>conv_id = get conv ''id'',
          created_at = get conv ''created_at'',
          updated_at = get conv ''updated_at'',
          last_message = (case lastMessages of None \<Rightarrow> None | Some [] \<Rightarrow> None | Some (m # _) \<Rightarrow> Some m),
          participants = formattedParticipants,
          unread_count = (case unreadCount of None \<Rightarrow> 0 | Some n \<Rightarrow> n),
          other_user =
            (case otherParticipant of
               None \<Rightarrow> None
             | Some p \<Rightarrow>
                 Some (or_default (part_username p) ''Unknown User'',
                       or_default (part_avatar_url p) ''''))\<rparr>)"

text \<open>
  The handler returns its response and the queries it has issued, in the order of the
  source (within step 4, conversation by conversation; \<open>Promise.all\<close> leaves their
  interleaving open). The client returns a failure in \<open>error\<close> and does not throw, so the
  \<open>catch\<close> branch is reached only when \<open>getUserId\<close> throws.
\<close>

definition unauthorized :: response where
  "unauthorized = Error_response ''Authentication required.'' 401 ''UNAUTHORIZED''"

definition load_failed :: response where
  "load_failed = Error_response ''Failed to load conversations.'' 500 ''INTERNAL_ERROR''"

definition internal_error :: response where
  "internal_error = Error_response ''Internal server error.'' 500 ''INTERNAL_ERROR''"

definition list_conversations :: "backend \<Rightarrow> string \<Rightarrow> js_number \<Rightarrow> row list \<Rightarrow> response \<times> query list" where
  "list_conversations b userId limit participations =
     (let conversationIds = map (\<lambda>p. get p ''conversation_id'') participations;
          q2 = conversations_query conversationIds limit;
          r2 = run b q2
      in if error r2 then (load_failed, [participations_query userId, q2])
         else
           let conversations = (case data r2 of None \<Rightarrow> [] | Some cs \<Rightarrow> cs)
           in (Success_response (map (enrich b userId) conversations),
               [participations_query userId, q2] @ concat (map (enrich_queries userId) conversations)))"

definition GET :: "backend \<Rightarrow> request \<Rightarrow> response \<times> query list" where
  "GET b req =
     (let limit = limit_of req
      in case user req of
           Thrown \<Rightarrow> (internal_error, [])
         | Returned None \<Rightarrow> (unauthorized, [])
         | Returned (Some userId) \<Rightarrow>
             if userId = [] then (unauthorized, [])
             else
               let r1 = run b (participations_query userId)
               in if error r1 then (load_failed, [participations_query userId])
                  else (case data r1 of
                          None \<Rightarrow> (Success_response [], [participations_query userId])
                        | Some participations \<Rightarrow>
                            if participations = []
                            then (Success_response [], [participations_query userId])
                            else list_conversations b userId limit participations))"

section \<open>What the claims speak of\<close>

text \<open>
  The limit as the claim words it: \<open>parseInt\<close> of the parameter whenever it is present,
  50 when it is absent. (The handler's own limit is \<open>limit_of\<close>.)
\<close>

definition claimed_limit :: "request \<Rightarrow> js_number" where
  "claimed_limit req = (case limit_param req of None \<Rightarrow> JsInt 50 | Some s \<Rightarrow> parseInt s)"

text \<open>Previews in the order of \<open>updated_at\<close> descending (a null before every timestamp).\<close>

definition newest_first :: "preview list \<Rightarrow> bool" where
  "newest_first ps = sorted_wrt (\<lambda>p q. desc_key (updated_at p) \<le> desc_key (updated_at q)) ps"

text \<open>The user has a row in \<open>conversation_participants\<close> for the conversation.\<close>

definition participates :: "backend \<Rightarrow> string \<Rightarrow> val \<Rightarrow> bool" where
  "participates b userId cid =
     list_ex (\<lambda>r. get r ''user_id'' = Text userId \<and> get r ''conversation_id'' = cid)
       (tables b ''conversation_participants'')"

text \<open>The messages of a conversation that other users sent and whose \<open>read_at\<close> is null.\<close>

definition unread_from_others :: "backend \<Rightarrow> string \<Rightarrow> val \<Rightarrow> nat" where
  "unread_from_others b userId cid =
     length (filter (\<lambda>m. get m ''conversation_id'' = cid \<and> get m ''read_at'' = Null
                          \<and> get m ''sender_id'' \<noteq> Text userId)
               (tables b ''messages''))"

section \<open>Example data\<close>

text \<open>
  Alice takes part in three of four conversations; Bob has sent her two messages that
  she has not read; Carol takes part in none.
\<close>

definition example_tables :: "string \<Rightarrow> row list" where
  "example_tables t =
     (if t = ''conversation_participants'' then
        [[(''id'', Text ''p1''), (''conversation_id'', Text ''c1''), (''user_id'', Text ''alice'')],
         [(''id'', Text ''p2''), (''conversation_id'', Text ''c1''), (''user_id'', Text ''bob'')],
         [(''id'', Text ''p3''), (''conversation_id'', Text ''c2''), (''user_id'', Text ''alice'')],
         [(''id'', Text ''p4''), (''conversation_id'', Text ''c3''), (''user_id'', Text ''alice'')],
         [(''id'', Text ''p5''), (''conversation_id'', Text ''c4''), (''user_id'', Text ''bob'')]]
      else if t = ''conversations'' then
        [[(''id'', Text ''c1''), (''created_at'', Num 1), (''updated_at'', Num 5)],
         [(''id'', Text ''c2''), (''created_at'', Num 2), (''updated_at'', Num 9)],
         [(''id'', Text ''c3''), (''created_at'', Num 2), (''updated_at'', Num 7)],
         [(''id'', Text ''c4''), (''created_at'', Num 3), (''updated_at'', Num 11)]]
      else if t = ''messages'' then
        [[(''conversation_id'', Text ''c1''), (''sender_id'', Text ''bob''), (''content'', Text ''hi''),
          (''created_at'', Num 3), (''deleted_at'', Null), (''read_at'', Null)],
         [(''conversation_id'', Text ''c1''), (''sender_id'', Text ''bob''), (''content'', Text ''hello?''),
          (''created_at'', Num 4), (''deleted_at'', Null), (''read_at'', Null)]]
      else if t = ''users'' then
        [[(''id'', Text ''alice''), (''username'', Text ''Alice''), (''avatar_url'', Null)],
         [(''id'', Text ''bob''), (''username'', Text ''Bob''), (''avatar_url'', Text ''b.png'')]]
      else [])"

definition example_backend :: backend where
  "example_backend =
     \<lparr>tables = example_tables, fails = (\<lambda>q. False), max_rows = Some 1000,
      odd_limit = (\<lambda>l. Rejected)\<rparr>"

definition unreachable_backend :: backend where
  "unreachable_backend =
     \<lparr>tables = example_tables, fails = (\<lambda>q. True), max_rows = Some 1000,
      odd_limit = (\<lambda>l. Rejected)\<rparr>"

definition alice_only :: participant where
  "alice_only = \<lparr>part_id = Text ''p1'', part_user_id = Text ''alice'',
                  part_username = Text ''Alice'', part_avatar_url = Null\<rparr>"

definition preview_c1 :: preview where
  "preview_c1 =
     \<lparr>conv_id = Text ''c1'', created_at = Num 1, updated_at = Num 5,
      last_message = Some [(''content'', Text ''hello?''), (''sender_id'', Text ''bob''),
                           (''created_at'', Num 4)],
      participants =
        [alice_only,
         \<lparr>part_id = Text ''p2'', part_user_id = Text ''bob'',
          part_username = Text ''Bob'', part_avatar_url = Text ''b.png''\<rparr>],
      unread_count = 0, other_user = Some (Text ''Bob'', Text ''b.png'')\<rparr>"

definition preview_c2 :: preview where
  "preview_c2 =
     \<lparr>conv_id = Text ''c2'', created_at = Num 2, updated_at = Num 9, last_message = None,
      participants = [alice_only\<lparr>part_id := Text ''p3''\<rparr>],
      unread_count = 0, other_user = None\<rparr>"

definition preview_c3 :: preview where
  "preview_c3 =
     \<lparr>conv_id = Text ''c3'', created_at = Num 2, updated_at = Num 7, last_message = None,
      participants = [alice_only\<lparr>part_id := Text ''p4''\<rparr>],
      unread_count = 0, other_user = None\<rparr>"

section \<open>The escrow contract\<close>

text \<open>
  Modelled from the spec: the escrow contract. Its code is not among the sources; the
  issue list gives only the signatures \<open>initialize(env, landlord, tenants, rent_amount)\<close>,
  \<open>deposit(env, from, amount)\<close>, \<open>withdraw(env) -> i128\<close>, \<open>get_balance(env)\<close> and
  \<open>get_status(env)\<close>. The definitions follow section 4.1 of the specification: the states
  \<open>Uninitialized\<close>, \<open>Active\<close>, \<open>Settled\<close>, \<open>Disputed\<close>; \<open>initialize\<close> callable once;
  \<open>deposit\<close> only while \<open>Active\<close>, by a tenant, of a positive amount; \<open>withdraw\<close> only by
  the landlord while \<open>Active\<close>, paying out the whole balance. The specification names no
  error for a call outside \<open>Active\<close>; the model calls it \<open>NotActive\<close>. Every call returns
  its result and the contract's state after it.
\<close>

datatype contract_status = Uninitialized | Active | Settled | Disputed

text \<open>Modelled from the spec: the contract's errors (section 7), and \<open>NotActive\<close>.\<close>

datatype contract_error = AlreadyInitialized | NotActive | Unauthorized | InvalidAmount

text \<open>Modelled from the spec: the contract's stored state (the Agreement of section 3 and
  the tracked balance).\<close>

record escrow =
  status :: contract_status
  landlord :: string
  tenants :: "string list"
  rent_amount :: int
  balance :: int

text \<open>Modelled from the spec: the contract instance before \<open>initialize\<close>.\<close>

definition fresh :: escrow where
  "fresh = \<lparr>status = Uninitialized, landlord = [], tenants = [], rent_amount = 0, balance = 0\<rparr>"

text \<open>Modelled from the spec: \<open>initialize\<close>, callable once, then \<open>AlreadyInitialized\<close>.\<close>

definition initialize :: "string \<Rightarrow> string list \<Rightarrow> int \<Rightarrow> escrow \<Rightarrow> (contract_error + unit) \<times> escrow" where
  "initialize l ts rent c =
     (if status c = Uninitialized
      then (Inr (), c\<lparr>status := Active, landlord := l, tenants := ts, rent_amount := rent\<rparr>)
      else (Inl AlreadyInitialized, c))"

text \<open>Modelled from the spec: \<open>deposit\<close>. The checks are in the order of the specification's
  sentence; it does not say which error a call that fails several of them returns.\<close>

definition deposit :: "string \<Rightarrow> int \<Rightarrow> escrow \<Rightarrow> (contract_error + unit) \<times> escrow" where
  "deposit payer amount c =
     (if status c \<noteq> Active then (Inl NotActive, c)
      else if payer \<notin> set (tenants c) then (Inl Unauthorized, c)
      else if amount \<le> 0 then (Inl InvalidAmount, c)
      else (Inr (), c\<lparr>balance := balance c + amount\<rparr>))"

text \<open>Modelled from the spec: \<open>withdraw\<close> returns the amount it transfers.\<close>

definition withdraw :: "string \<Rightarrow> escrow \<Rightarrow> (contract_error + int) \<times> escrow" where
  "withdraw caller c =
     (if status c \<noteq> Active then (Inl NotActive, c)
      else if caller \<noteq> landlord c then (Inl Unauthorized, c)
      else (Inr (balance c), c\<lparr>balance := 0\<rparr>))"

text \<open>Modelled from the spec: the two pure reads.\<close>

definition get_balance :: "escrow \<Rightarrow> int" where
  "get_balance c = balance c"

definition get_status :: "escrow \<Rightarrow> contract_status" where
  "get_status c = status c"

text \<open>Modelled from the spec: a call to the contract, and the state it leaves.\<close>

datatype call = Initialize string "string list" int | Deposit string int | Withdraw string

fun step :: "escrow \<Rightarrow> call \<Rightarrow> escrow" where
  "step c (Initialize l ts rent) = snd (initialize l ts rent c)"
| "step c (Deposit payer amount) = snd (deposit payer amount c)"
| "step c (Withdraw caller) = snd (withdraw caller c)"

section \<open>Properties of the database client\<close>

lemma get_project_conversation:
  "get (project b [Col ''id'', Col ''created_at'', Col ''updated_at''] r) ''updated_at'' = get r ''updated_at''"
  "get (project b [Col ''id'', Col ''created_at'', Col ''updated_at''] r) ''id'' = get r ''id''"
  by (simp_all add: project_def project_col_def get_def)

lemma get_project_participation:
  "get (project b [Col ''conversation_id''] r) ''conversation_id'' = get r ''conversation_id''"
  by (simp add: project_def project_col_def get_def)

text \<open>Rows that come back are projections of a prefix of the selected rows, in order.\<close>

lemma capped_prefix: "\<exists>k. capped b rs = take k rs"
proof (cases "max_rows b")
  case None
  then have "capped b rs = take (length rs) rs" by (simp add: capped_def)
  then show ?thesis ..
next
  case (Some m)
  then have "capped b rs = take m rs" by (simp add: capped_def)
  then show ?thesis ..
qed

lemma run_rows:
  assumes "data (run b q) = Some rows"
  shows "\<exists>n. rows = map (project b (sel q))
            (take n (ordered (order_desc q) (filter (selected (filters q)) (tables b (tbl q)))))"
proof -
  let ?rs = "ordered (order_desc q) (filter (selected (filters q)) (tables b (tbl q)))"
  obtain k where k: "capped b ?rs = take k ?rs"
    using capped_prefix by blast
  from assms have "rows = map (project b (sel q)) (capped b ?rs)
      \<or> (\<exists>n. rows = map (project b (sel q)) (take n (capped b ?rs)))"
    by (auto simp: run_def failed_def Let_def split: if_splits limit_outcome.splits)
  then have "rows = map (project b (sel q)) (take k ?rs)
      \<or> (\<exists>n. rows = map (project b (sel q)) (take (min n k) ?rs))"
    by (simp add: k)
  then show ?thesis by blast
qed

lemma run_rows_limited:
  assumes "data (run b q) = Some rows" and "lim q = Some (JsInt k)" and "0 \<le> k" and "k \<le> max_safe"
  shows "length rows \<le> nat k"
  using assms
  by (auto simp: run_def failed_def Let_def limit_outcome_of_def split: if_splits)

text \<open>The unread query selects no row: its filter \<open>eq("read_at", null)\<close> is never true.\<close>

lemma unread_selects_nothing: "\<not> selected (filters (unread_query cid userId)) r"
  by (simp add: selected_def unread_query_def)

lemma unread_count_run:
  "count (run b (unread_query cid userId)) = None \<or> count (run b (unread_query cid userId)) = Some 0"
proof (cases "fails b (unread_query cid userId)")
  case True
  then show ?thesis by (simp add: run_def failed_def)
next
  case False
  have "filter (selected (filters (unread_query cid userId))) rs = []" for rs
    by (simp add: unread_selects_nothing)
  moreover have "head_count (unread_query cid userId)" "order_desc (unread_query cid userId) = None"
    by (simp_all add: unread_query_def)
  ultimately show ?thesis using False
    by (simp add: run_def ordered_def)
qed

text \<open>The rows of the participations query are rows of the user.\<close>

lemma participation_ids:
  assumes "data (run b (participations_query userId)) = Some parts" and "p \<in> set parts"
  shows "participates b userId (get p ''conversation_id'')"
proof -
  from run_rows [OF assms(1)] obtain n where
    parts: "parts = map (project b [Col ''conversation_id''])
        (take n (filter (selected [Eq ''user_id'' (Text userId)]) (tables b ''conversation_participants'')))"
    by (auto simp: participations_query_def ordered_def)
  with assms(2) obtain r where r: "r \<in> set (take n (filter (selected [Eq ''user_id'' (Text userId)])
        (tables b ''conversation_participants'')))" and p: "p = project b [Col ''conversation_id''] r"
    by auto
  from r have "r \<in> set (filter (selected [Eq ''user_id'' (Text userId)]) (tables b ''conversation_participants''))"
    using set_take_subset by fastforce
  then have "r \<in> set (tables b ''conversation_participants'')" and "get r ''user_id'' = Text userId"
    by (auto simp: selected_def split: if_splits)
  then show ?thesis
    by (auto simp: participates_def list_ex_iff p get_project_participation)
qed

text \<open>The rows of the conversations query are in order and among the ids asked for.\<close>

lemma conversation_rows:
  assumes "data (run b (conversations_query ids l)) = Some convs"
  shows "sorted (map (\<lambda>c. desc_key (get c ''updated_at'')) convs)"
    and "\<forall>c \<in> set convs. get c ''id'' \<in> set ids"
proof -
  let ?rs = "sort_key (\<lambda>r. desc_key (get r ''updated_at''))
               (filter (selected [In ''id'' ids]) (tables b ''conversations''))"
  from run_rows [OF assms] obtain n where
    convs: "convs = map (project b [Col ''id'', Col ''created_at'', Col ''updated_at'']) (take n ?rs)"
    by (auto simp: conversations_query_def ordered_def)
  have "map (\<lambda>c. desc_key (get c ''updated_at'')) convs
          = take n (map (\<lambda>r. desc_key (get r ''updated_at'')) ?rs)"
    by (simp add: convs comp_def get_project_conversation take_map)
  moreover have "sorted (map (\<lambda>r. desc_key (get r ''updated_at'')) ?rs)"
    by (rule sorted_sort_key)
  ultimately show "sorted (map (\<lambda>c. desc_key (get c ''updated_at'')) convs)"
    by (simp add: sorted_wrt_take)
  show "\<forall>c \<in> set convs. get c ''id'' \<in> set ids"
  proof
    fix c assume "c \<in> set convs"
    then obtain r where r: "r \<in> set (take n ?rs)"
      and c: "c = project b [Col ''id'', Col ''created_at'', Col ''updated_at''] r"
      by (auto simp: convs)
    from r have "r \<in> set ?rs" using set_take_subset by fastforce
    then have "selected [In ''id'' ids] r" by simp
    then have "get r ''id'' \<in> set ids"
      by (auto simp: selected_def split: if_splits)
    then show "get c ''id'' \<in> set ids" by (simp add: c get_project_conversation)
  qed
qed

section \<open>Properties of the handler\<close>

lemma unread_count_enrich: "unread_count (enrich b userId conv) = 0"
  using unread_count_run [of b "get conv ''id''" userId]
  by (auto simp: enrich_def Let_def)

lemma enrich_fields:
  "updated_at (enrich b userId conv) = get conv ''updated_at''"
  "conv_id (enrich b userId conv) = get conv ''id''"
  by (simp_all add: enrich_def Let_def)

text \<open>A non-empty success response is built in step 4 from the rows of the two queries.\<close>

lemma GET_success:
  assumes "fst (GET b req) = Success_response ps" and "ps \<noteq> []"
  obtains userId parts convs where
    "user req = Returned (Some userId)" and "userId \<noteq> []"
    and "data (run b (participations_query userId)) = Some parts"
    and "data (run b (conversations_query (map (\<lambda>p. get p ''conversation_id'') parts) (limit_of req)))
          = Some convs"
    and "ps = map (enrich b userId) convs"
  using assms
  by (auto simp: GET_def list_conversations_def Let_def unauthorized_def load_failed_def
        internal_error_def
      split: outcome.splits option.splits if_splits)

lemma alice_limit_two:
  "fst (GET example_backend \<lparr>limit_param = Some ''2'', user = Returned (Some ''alice'')\<rparr>)
     = Success_response [preview_c2, preview_c3]"
  by code_simp

lemma alice_limit_empty:
  "fst (GET example_backend \<lparr>limit_param = Some '''', user = Returned (Some ''alice'')\<rparr>)
     = Success_response [preview_c2, preview_c3, preview_c1]"
  by code_simp

text \<open>
  Claim C8. For every authenticated request to \<open>GET /api/conversations\<close> and every
  conversation preview in the response, \<open>unread_count\<close> is 0, however many messages of
  other senders have a null \<open>read_at\<close>: the unread query filters \<open>read_at\<close> with \<open>eq\<close>
  against \<open>null\<close>, which holds of no row, and a null count is coalesced to 0.
\<close>

theorem previews_unread_zero:
  assumes "fst (GET b req) = Success_response ps" and "p \<in> set ps"
  shows "unread_count p = 0"
proof -
  from assms(2) have "ps \<noteq> []" by auto
  with assms(1) obtain userId convs where "ps = map (enrich b userId) convs"
    by (rule GET_success)
  with assms(2) show ?thesis by (auto simp: unread_count_enrich)
qed

text \<open>Alice has two unread messages from Bob in conversation \<open>c1\<close>; its preview counts none.\<close>

theorem previews_unread_zero_witness:
  "fst (GET example_backend \<lparr>limit_param = Some '''', user = Returned (Some ''alice'')\<rparr>)
     = Success_response [preview_c2, preview_c3, preview_c1]
   \<and> unread_from_others example_backend ''alice'' (conv_id preview_c1) = 2
   \<and> unread_count preview_c1 = 0"
proof -
  have member: "preview_c1 \<in> set [preview_c2, preview_c3, preview_c1]" by simp
  have "unread_count preview_c1 = 0"
    by (rule previews_unread_zero [OF alice_limit_empty member])
  moreover have "unread_from_others example_backend ''alice'' (conv_id preview_c1) = 2"
    by code_simp
  ultimately show ?thesis using alice_limit_empty by blast
qed

text \<open>
  Claim C9, as amended. When \<open>getUserId(request)\<close> returns no user (or the empty
  string), the handler returns the 401 error response with code \<open>UNAUTHORIZED\<close> and
  message "Authentication required." and has issued no database query. For an
  authenticated user with no row in \<open>conversation_participants\<close> whose participations
  query reports no error, it returns a success response whose data is the empty list.
\<close>

theorem unauthorized_or_empty:
  "(user req = Returned None \<or> user req = Returned (Some []) \<longrightarrow>
      GET b req = (Error_response ''Authentication required.'' 401 ''UNAUTHORIZED'', []))
   \<and> (user req = Returned (Some userId) \<and> userId \<noteq> []
        \<and> \<not> error (run b (participations_query userId))
        \<and> (\<forall>r \<in> set (tables b ''conversation_participants''). get r ''user_id'' \<noteq> Text userId)
      \<longrightarrow> fst (GET b req) = Success_response [])"
proof (intro conjI impI)
  assume "user req = Returned None \<or> user req = Returned (Some [])"
  then show "GET b req = (Error_response ''Authentication required.'' 401 ''UNAUTHORIZED'', [])"
    by (auto simp: GET_def unauthorized_def)
next
  assume a: "user req = Returned (Some userId) \<and> userId \<noteq> []
        \<and> \<not> error (run b (participations_query userId))
        \<and> (\<forall>r \<in> set (tables b ''conversation_participants''). get r ''user_id'' \<noteq> Text userId)"
  have none: "parts = []" if "data (run b (participations_query userId)) = Some parts" for parts
  proof (rule ccontr)
    assume "parts \<noteq> []"
    then obtain p where "p \<in> set parts" by (cases parts) auto
    from participation_ids [OF that this] a show False
      by (auto simp: participates_def list_ex_iff)
  qed
  with a show "fst (GET b req) = Success_response []"
    by (auto simp: GET_def Let_def split: option.splits)
qed

text \<open>An anonymous request, and Carol, who takes part in no conversation.\<close>

theorem unauthorized_or_empty_witness:
  "GET example_backend \<lparr>limit_param = None, user = Returned None\<rparr>
     = (Error_response ''Authentication required.'' 401 ''UNAUTHORIZED'', [])
   \<and> fst (GET example_backend \<lparr>limit_param = None, user = Returned (Some ''carol'')\<rparr>)
     = Success_response []"
proof -
  have "\<not> error (run example_backend (participations_query ''carol''))"
    by code_simp
  moreover have "\<forall>r \<in> set (tables example_backend ''conversation_participants'').
      get r ''user_id'' \<noteq> Text ''carol''"
    by (simp add: example_backend_def example_tables_def get_def)
  ultimately show ?thesis
    using unauthorized_or_empty
            [where req = "\<lparr>limit_param = None, user = Returned None\<rparr>" and b = example_backend]
          unauthorized_or_empty
            [where req = "\<lparr>limit_param = None, user = Returned (Some ''carol'')\<rparr>"
               and userId = "''carol''" and b = example_backend]
    by simp
qed

text \<open>
  Claim C9 as it stands fails when the participations query reports an error: Carol is
  authenticated and has no row in \<open>conversation_participants\<close>, and the handler answers
  with the 500 error response instead of the empty list.
\<close>

theorem empty_list_counterexample:
  "list_all (\<lambda>r. get r ''user_id'' \<noteq> Text ''carol'')
     (tables unreachable_backend ''conversation_participants'')
   \<and> fst (GET unreachable_backend \<lparr>limit_param = None, user = Returned (Some ''carol'')\<rparr>)
       = Error_response ''Failed to load conversations.'' 500 ''INTERNAL_ERROR''
   \<and> fst (GET unreachable_backend \<lparr>limit_param = None, user = Returned (Some ''carol'')\<rparr>)
       \<noteq> Success_response []"
  by code_simp

text \<open>
  Claim C10, as amended. For every authenticated request that is answered with
  previews, the previews are ordered by \<open>updated_at\<close> descending and each is a
  conversation the requesting user participates in; they number at most 50 when the
  \<open>limit\<close> parameter is absent or empty, and at most \<open>parseInt(limit, 10)\<close> when the
  parameter is non-empty and parses to a non-negative exact integer.
\<close>

theorem previews_ordered_limited_own:
  assumes "user req = Returned (Some userId)" and "fst (GET b req) = Success_response ps"
  shows "newest_first ps
    \<and> (\<forall>p \<in> set ps. participates b userId (conv_id p))
    \<and> (limit_param req = None \<or> limit_param req = Some [] \<longrightarrow> length ps \<le> 50)
    \<and> (\<forall>s n. limit_param req = Some s \<and> s \<noteq> [] \<and> parseInt s = JsInt n \<and> 0 \<le> n \<and> n \<le> max_safe
          \<longrightarrow> length ps \<le> nat n)"
proof (cases "ps = []")
  case True
  then show ?thesis by (simp add: newest_first_def)
next
  case False
  with assms(2) obtain u parts convs where
    u: "user req = Returned (Some u)"
    and parts: "data (run b (participations_query u)) = Some parts"
    and convs: "data (run b (conversations_query (map (\<lambda>p. get p ''conversation_id'') parts) (limit_of req)))
                  = Some convs"
    and ps: "ps = map (enrich b u) convs"
    by (rule GET_success)
  from u assms(1) have [simp]: "u = userId" by simp
  note rows = conversation_rows [OF convs]
  have "map (\<lambda>p. desc_key (updated_at p)) ps = map (\<lambda>c. desc_key (get c ''updated_at'')) convs"
    by (simp add: ps comp_def enrich_fields)
  with rows(1) have "sorted (map (\<lambda>p. desc_key (updated_at p)) ps)" by simp
  then have ordered: "newest_first ps"
    by (simp add: newest_first_def sorted_map)
  have own: "\<forall>p \<in> set ps. participates b userId (conv_id p)"
  proof
    fix p assume "p \<in> set ps"
    then obtain c where c: "c \<in> set convs" and p: "p = enrich b userId c" by (auto simp: ps)
    from rows(2) c obtain q where "q \<in> set parts" and "get c ''id'' = get q ''conversation_id''"
      by auto
    with participation_ids [OF parts] show "participates b userId (conv_id p)"
      by (simp add: p enrich_fields)
  qed
  have len: "length ps \<le> nat k" if "limit_of req = JsInt k" and "0 \<le> k" and "k \<le> max_safe" for k
  proof -
    have "lim (conversations_query (map (\<lambda>p. get p ''conversation_id'') parts) (limit_of req))
            = Some (JsInt k)"
      by (simp add: conversations_query_def that(1))
    from run_rows_limited [OF convs this that(2,3)] show ?thesis by (simp add: ps)
  qed
  have "length ps \<le> 50" if "limit_param req = None \<or> limit_param req = Some []"
    using len [of 50] that by (auto simp: limit_of_def max_safe_def)
  moreover have "length ps \<le> nat n"
    if "limit_param req = Some s" "s \<noteq> []" "parseInt s = JsInt n" "0 \<le> n" "n \<le> max_safe" for s n
    using len [of n] that by (simp add: limit_of_def)
  ultimately show ?thesis using ordered own by blast
qed

text \<open>
  With \<open>limit=2\<close> Alice gets the two most recently updated of her three conversations;
  with an empty \<open>limit\<close> she gets all three, which are fewer than 50.
\<close>

theorem previews_ordered_limited_own_witness:
  "fst (GET example_backend \<lparr>limit_param = Some ''2'', user = Returned (Some ''alice'')\<rparr>)
     = Success_response [preview_c2, preview_c3]
   \<and> newest_first [preview_c2, preview_c3]
   \<and> list_all (\<lambda>p. participates example_backend ''alice'' (conv_id p)) [preview_c2, preview_c3]
   \<and> parseInt ''2'' = JsInt 2
   \<and> length [preview_c2, preview_c3] \<le> nat 2
   \<and> fst (GET example_backend \<lparr>limit_param = Some '''', user = Returned (Some ''alice'')\<rparr>)
     = Success_response [preview_c2, preview_c3, preview_c1]
   \<and> length [preview_c2, preview_c3, preview_c1] \<le> 50"
proof -
  let ?req = "\<lparr>limit_param = Some ''2'', user = Returned (Some ''alice'')\<rparr>"
  let ?all = "\<lparr>limit_param = Some '''', user = Returned (Some ''alice'')\<rparr>"
  have alice: "user ?req = Returned (Some ''alice'')" and alice': "user ?all = Returned (Some ''alice'')"
    by simp_all
  note facts = previews_ordered_limited_own [OF alice alice_limit_two]
  note facts' = previews_ordered_limited_own [OF alice' alice_limit_empty]
  have two: "parseInt ''2'' = JsInt 2" by code_simp
  from facts have "newest_first [preview_c2, preview_c3]" by blast
  moreover from facts have "\<forall>p \<in> set [preview_c2, preview_c3]. participates example_backend ''alice'' (conv_id p)"
    by blast
  then have "list_all (\<lambda>p. participates example_backend ''alice'' (conv_id p)) [preview_c2, preview_c3]"
    by (simp only: list_all_iff)
  moreover from facts have "limit_param ?req = Some ''2'' \<and> ''2'' \<noteq> [] \<and> parseInt ''2'' = JsInt 2
      \<and> (0::int) \<le> 2 \<and> 2 \<le> max_safe \<longrightarrow> length [preview_c2, preview_c3] \<le> nat 2"
    by blast
  with two have "length [preview_c2, preview_c3] \<le> nat 2"
    by (simp add: max_safe_def)
  moreover from facts' have "limit_param ?all = None \<or> limit_param ?all = Some []
      \<longrightarrow> length [preview_c2, preview_c3, preview_c1] \<le> 50"
    by blast
  then have "length [preview_c2, preview_c3, preview_c1] \<le> 50" by simp
  ultimately show ?thesis using alice_limit_two alice_limit_empty two by blast
qed

text \<open>
  Claim C10 as it stands fails for the request \<open>?limit=\<close>: the parameter is present and
  empty, the handler's limit is 50 where \<open>parseInt\<close> of the parameter is \<open>NaN\<close>, and the
  three previews it returns are not "at most \<open>NaN\<close>".
\<close>

theorem empty_limit_counterexample:
  "fst (GET example_backend \<lparr>limit_param = Some '''', user = Returned (Some ''alice'')\<rparr>)
     = Success_response [preview_c2, preview_c3, preview_c1]
   \<and> limit_of \<lparr>limit_param = Some '''', user = Returned (Some ''alice'')\<rparr> = JsInt 50
   \<and> claimed_limit \<lparr>limit_param = Some '''', user = Returned (Some ''alice'')\<rparr> = NaN
   \<and> \<not> at_most (length [preview_c2, preview_c3, preview_c1])
          (claimed_limit \<lparr>limit_param = Some '''', user = Returned (Some ''alice'')\<rparr>)"
  by code_simp

section \<open>Properties of the escrow contract\<close>

lemma step_keeps_initialized: "status c \<noteq> Uninitialized \<Longrightarrow> status (step c x) \<noteq> Uninitialized"
  by (cases x) (auto simp: initialize_def deposit_def withdraw_def)

lemma calls_keep_initialized:
  "status c \<noteq> Uninitialized \<Longrightarrow> status (foldl step c calls) \<noteq> Uninitialized"
  by (induction calls arbitrary: c) (simp_all add: step_keeps_initialized)

text \<open>
  Claim C6. On an \<open>Active\<close> contract with balance \<open>b\<close>, \<open>withdraw\<close> called by the landlord
  transfers exactly \<open>b\<close> and leaves the balance zero. In particular, after one deposit
  of 1000 by a tenant on a freshly initialized contract \<open>get_balance\<close> returns 1000, and
  after the landlord's \<open>withdraw\<close> it returns 0.
\<close>

theorem withdraw_full_balance:
  "(status c = Active \<and> caller = landlord c \<longrightarrow>
      withdraw caller c = (Inr (balance c), c\<lparr>balance := 0\<rparr>)
      \<and> get_balance (snd (withdraw caller c)) = 0)
   \<and> (t \<in> set ts \<longrightarrow>
      get_balance (snd (deposit t 1000 (snd (initialize l ts rent fresh)))) = 1000
      \<and> fst (withdraw l (snd (deposit t 1000 (snd (initialize l ts rent fresh))))) = Inr 1000
      \<and> get_balance (snd (withdraw l (snd (deposit t 1000 (snd (initialize l ts rent fresh)))))) = 0)"
  by (simp add: withdraw_def deposit_def initialize_def fresh_def get_balance_def)

text \<open>The contract after a tenant's deposit of 1000, and the scenario that leads to it.\<close>

theorem withdraw_full_balance_witness:
  "withdraw ''landlord''
       \<lparr>status = Active, landlord = ''landlord'', tenants = [''tenant''], rent_amount = 1000,
        balance = 1000\<rparr>
     = (Inr 1000,
        \<lparr>status = Active, landlord = ''landlord'', tenants = [''tenant''], rent_amount = 1000,
         balance = 0\<rparr>)
   \<and> get_balance (snd (deposit ''tenant'' 1000 (snd (initialize ''landlord'' [''tenant''] 1000 fresh))))
     = 1000
   \<and> fst (withdraw ''landlord''
            (snd (deposit ''tenant'' 1000 (snd (initialize ''landlord'' [''tenant''] 1000 fresh)))))
     = Inr 1000
   \<and> get_balance (snd (withdraw ''landlord''
            (snd (deposit ''tenant'' 1000 (snd (initialize ''landlord'' [''tenant''] 1000 fresh))))))
     = 0"
  using withdraw_full_balance
          [where c = "\<lparr>status = Active, landlord = ''landlord'', tenants = [''tenant''],
                       rent_amount = 1000, balance = 1000\<rparr>"
             and caller = "''landlord''" and t = "''tenant''" and ts = "[''tenant'']"
             and l = "''landlord''" and rent = 1000]
  by simp

text \<open>
  Claim C7. \<open>initialize\<close> succeeds at most once: the first call, on an \<open>Uninitialized\<close>
  contract, succeeds, and after it, whatever calls have followed, a further
  \<open>initialize\<close> fails with \<open>AlreadyInitialized\<close> and leaves the contract state unchanged.
\<close>

theorem initialize_once:
  assumes "status c = Uninitialized"
  shows "fst (initialize l ts rent c) = Inr ()
    \<and> initialize l' ts' rent' (foldl step (snd (initialize l ts rent c)) calls)
        = (Inl AlreadyInitialized, foldl step (snd (initialize l ts rent c)) calls)"
proof -
  from assms have first: "fst (initialize l ts rent c) = Inr ()"
    and "status (snd (initialize l ts rent c)) \<noteq> Uninitialized"
    by (simp_all add: initialize_def)
  then have "status (foldl step (snd (initialize l ts rent c)) calls) \<noteq> Uninitialized"
    by (simp add: calls_keep_initialized)
  then have "initialize l' ts' rent' (foldl step (snd (initialize l ts rent c)) calls)
        = (Inl AlreadyInitialized, foldl step (snd (initialize l ts rent c)) calls)"
    by (simp add: initialize_def)
  with first show ?thesis by simp
qed

theorem initialize_once_witness:
  "status fresh = Uninitialized
   \<and> fst (initialize ''landlord'' [''tenant''] 1000 fresh) = Inr ()
   \<and> initialize ''mallory'' [] 1
       (foldl step (snd (initialize ''landlord'' [''tenant''] 1000 fresh))
          [Deposit ''tenant'' 1000, Withdraw ''landlord''])
     = (Inl AlreadyInitialized,
        \<lparr>status = Active, landlord = ''landlord'', tenants = [''tenant''], rent_amount = 1000,
         balance = 0\<rparr>)"
proof -
  have uninit: "status fresh = Uninitialized" by (simp add: fresh_def)
  have final: "foldl step (snd (initialize ''landlord'' [''tenant''] 1000 fresh))
          [Deposit ''tenant'' 1000, Withdraw ''landlord'']
     = \<lparr>status = Active, landlord = ''landlord'', tenants = [''tenant''], rent_amount = 1000,
         balance = 0\<rparr>"
    by (simp add: initialize_def deposit_def withdraw_def fresh_def)
  from initialize_once [OF uninit, of "''landlord''" "[''tenant'']" 1000 "''mallory''" "[]" 1
      "[Deposit ''tenant'' 1000, Withdraw ''landlord'']"]
  show ?thesis using uninit final by simp
qed

end
